theory Spec2Isabelle
  imports Main "HOL-Library.Word" "HOL-Library.Multiset"
begin

section \<open>JavaScript values\<close>

text \<open>
  A JavaScript string is a sequence of UTF-16 code units; \<open>.length\<close> counts code units.
  String literals of the source are ASCII and are written \<open>js ''...''\<close>.
\<close>

type_synonym jsstring = "16 word list"

definition js :: "string \<Rightarrow> jsstring" where
  "js s = map (\<lambda>c. of_nat (of_char c)) s"

text \<open>
  \<open>String.prototype.trim\<close> removes WhiteSpace and LineTerminator code points from
  both ends: TAB, LF, VT, FF, CR, SPACE, NBSP, U+1680, U+2000..U+200A, U+2028, U+2029,
  U+202F, U+205F, U+3000 and U+FEFF. All of them are single code units.
\<close>

definition is_ws :: "16 word \<Rightarrow> bool" where
  "is_ws c =
     (c = 0x09 \<or> c = 0x0A \<or> c = 0x0B \<or> c = 0x0C \<or> c = 0x0D \<or> c = 0x20 \<or>
      c = 0xA0 \<or> c = 0x1680 \<or> (0x2000 \<le> c \<and> c \<le> 0x200A) \<or>
      c = 0x2028 \<or> c = 0x2029 \<or> c = 0x202F \<or> c = 0x205F \<or> c = 0x3000 \<or>
      c = 0xFEFF)"

definition trim :: "jsstring \<Rightarrow> jsstring" where
  "trim s = rev (dropWhile is_ws (rev (dropWhile is_ws s)))"

text \<open>
  The values that flow through the components: \<open>undefined\<close>, \<open>null\<close>, a string, or an
  object with named properties. An \<open>Error\<close> instance is an object whose \<open>message\<close>
  property holds the text given to the constructor.
\<close>

datatype js_value =
    Undefined
  | Null
  | Str jsstring
  | Obj "(string \<times> js_value) list"

definition new_Error :: "jsstring \<Rightarrow> js_value" where
  "new_Error msg = Obj [(''message'', Str msg)]"

text \<open>Truthiness, as tested by \<open>if (v)\<close>, \<open>!v\<close> and \<open>v || w\<close>.\<close>

fun truthy :: "js_value \<Rightarrow> bool" where
  "truthy Undefined = False"
| "truthy Null = False"
| "truthy (Str s) = (s \<noteq> [])"
| "truthy (Obj ps) = True"

text \<open>
  Optional property access \<open>v?.name\<close>: \<open>undefined\<close> on \<open>null\<close> and \<open>undefined\<close>;
  on a string primitive the names used in this program (\<open>message\<close>, \<open>response\<close>,
  \<open>data\<close>) are not defined, so the access yields \<open>undefined\<close>; on an object the
  first binding of the name, or \<open>undefined\<close>.
\<close>

fun opt_get :: "js_value \<Rightarrow> string \<Rightarrow> js_value" where
  "opt_get Undefined name = Undefined"
| "opt_get Null name = Undefined"
| "opt_get (Str s) name = Undefined"
| "opt_get (Obj ps) name = (case map_of ps name of None \<Rightarrow> Undefined | Some v \<Rightarrow> v)"

text \<open>The operator \<open>v || w\<close>.\<close>

definition or_else :: "js_value \<Rightarrow> js_value \<Rightarrow> js_value" where
  "or_else v w = (if truthy v then v else w)"

section \<open>BugList.jsx\<close>

text \<open>
  The four views the component can return. The list view carries the keys of the
  rendered items (\<open>key={bug._id}\<close>), in order.
\<close>

datatype list_view =
    LoadingView
  | ErrorView js_value
  | EmptyView
  | ListView "jsstring list"

text \<open>
  \<open>BugList({ bugs, onDelete, onStatusChange, loading, error })\<close>; \<open>bugs\<close> is given by
  the identifiers of its records. The handlers are passed through to the items and
  do not influence which view is returned.
\<close>

definition BugList :: "jsstring list \<Rightarrow> bool \<Rightarrow> js_value \<Rightarrow> list_view" where
  "BugList bugs loading error =
     (if loading then LoadingView
      else if truthy error then ErrorView error
      else if bugs = [] then EmptyView
      else ListView bugs)"

section \<open>ErrorBoundary.jsx\<close>

text \<open>\<open>this.state = { hasError: false, error: null }\<close>\<close>

record eb_state =
  hasError :: bool
  error :: js_value

definition constructor :: eb_state where
  "constructor = \<lparr>hasError = False, error = Null\<rparr>"

definition getDerivedStateFromError :: "js_value \<Rightarrow> eb_state" where
  "getDerivedStateFromError e = \<lparr>hasError = True, error = e\<rparr>"

text \<open>
  What the component has reported: one entry per call to a logging or reporting
  function, with the arguments of the call.
\<close>

type_synonym sink = "js_value list list"

text \<open>
  \<open>componentDidCatch(error, errorInfo)\<close> has an empty body (a comment only): it
  leaves the component's state and the sink as they are.
\<close>

definition componentDidCatch ::
    "js_value \<Rightarrow> js_value \<Rightarrow> eb_state \<times> sink \<Rightarrow> eb_state \<times> sink" where
  "componentDidCatch e errorInfo w = w"

definition handleReset :: "eb_state \<Rightarrow> eb_state" where
  "handleReset s = s\<lparr>hasError := False, error := Null\<rparr>"

text \<open>
  \<open>render()\<close> returns the fallback (heading, the child of the paragraph, the label of
  the button whose \<open>onClick\<close> is \<open>handleReset\<close>) or \<open>this.props.children\<close>.
\<close>

datatype 'c eb_view =
    Fallback (heading: jsstring) (description: js_value) (control: jsstring)
  | Children 'c

definition render :: "eb_state \<Rightarrow> 'c \<Rightarrow> 'c eb_view" where
  "render s children =
     (if hasError s then
        Fallback (js ''Something went wrong.'')
          (or_else (opt_get (error s) ''message'') (Str (js ''An unexpected error occurred.'')))
          (js ''Try Again'')
      else Children children)"

text \<open>
  The children of a boundary, by what rendering them does: they render to some content,
  or a descendant throws a value (React then supplies the component stack as the second
  argument of \<open>componentDidCatch\<close>).
\<close>

datatype 'c subtree =
    Renders 'c
  | Raises js_value js_value

text \<open>
  A mounted boundary: its state, its current \<open>props.children\<close> and what it has
  reported so far.
\<close>

record 'c mounted =
  state :: eb_state
  props_children :: "'c subtree"
  reported :: sink

text \<open>
  A value thrown below the boundary: React calls \<open>getDerivedStateFromError\<close> with the
  value and takes the result as the state, and on commit calls \<open>componentDidCatch\<close>
  with the value and the component stack.
\<close>

definition caught :: "js_value \<Rightarrow> js_value \<Rightarrow> 'c mounted \<Rightarrow> 'c mounted" where
  "caught e errorInfo m =
     (case componentDidCatch e errorInfo (getDerivedStateFromError e, reported m) of
        (s, k) \<Rightarrow> m\<lparr>state := s, reported := k\<rparr>)"

text \<open>
  One render of the boundary. With \<open>hasError\<close> set, \<open>render\<close> returns the fallback
  and the children are not rendered. Otherwise it returns the children, which React
  renders: a throw among them is caught by the boundary.
\<close>

definition render_pass :: "'c mounted \<Rightarrow> 'c mounted" where
  "render_pass m =
     (if hasError (state m) then m
      else (case props_children m of
              Renders c \<Rightarrow> m
            | Raises e errorInfo \<Rightarrow> caught e errorInfo m))"

definition mount :: "'c subtree \<Rightarrow> 'c mounted" where
  "mount c = render_pass \<lparr>state = constructor, props_children = c, reported = []\<rparr>"

text \<open>
  The events of the component's life: the parent re-renders it with new children; a
  descendant that had rendered re-renders on its own and throws; the button of the
  fallback is clicked, which calls \<open>handleReset\<close>, and the \<open>setState\<close> in it makes the
  boundary render again with its current children. Descendants are rendered only while
  \<open>hasError\<close> is false, so only then can one of them throw; the button exists only in
  the fallback, so it is clicked only when \<open>hasError\<close> is true.
\<close>

datatype 'c event =
    Rerender "'c subtree"
  | Throws js_value js_value
  | ClickTryAgain

fun step :: "'c mounted \<Rightarrow> 'c event \<Rightarrow> 'c mounted" where
  "step m (Rerender c) = render_pass (m\<lparr>props_children := c\<rparr>)"
| "step m (Throws e errorInfo) = (if hasError (state m) then m else caught e errorInfo m)"
| "step m ClickTryAgain =
     (if hasError (state m) then render_pass (m\<lparr>state := handleReset (state m)\<rparr>) else m)"

definition run :: "'c mounted \<Rightarrow> 'c event list \<Rightarrow> 'c mounted" where
  "run m evs = foldl step m evs"

definition shown :: "'c mounted \<Rightarrow> 'c subtree eb_view" where
  "shown m = render (state m) (props_children m)"

section \<open>BugForm.jsx\<close>

text \<open>\<open>const initialState = { title: '', description: '', status: 'open' }\<close>\<close>

record draft =
  title :: jsstring
  description :: jsstring
  status :: jsstring

definition initialState :: draft where
  "initialState = \<lparr>title = [], description = [], status = js ''open''\<rparr>"

text \<open>
  The component's state: \<open>form\<close> and \<open>formError\<close>. (The third state variable,
  \<open>focus\<close>, only selects the CSS class of the labels and is left out.)
\<close>

record BugForm_state =
  form :: draft
  formError :: jsstring

definition BugForm_initial :: BugForm_state where
  "BugForm_initial = \<lparr>form = initialState, formError = []\<rparr>"

text \<open>The \<open>name\<close> attributes of the three controls, as \<open>e.target.name\<close> delivers them.\<close>

datatype field = Title | Description | Status

fun handleChange :: "field \<Rightarrow> jsstring \<Rightarrow> BugForm_state \<Rightarrow> BugForm_state" where
  "handleChange Title v st = st\<lparr>form := (form st)\<lparr>title := v\<rparr>, formError := []\<rparr>"
| "handleChange Description v st = st\<lparr>form := (form st)\<lparr>description := v\<rparr>, formError := []\<rparr>"
| "handleChange Status v st = st\<lparr>form := (form st)\<lparr>status := v\<rparr>, formError := []\<rparr>"

text \<open>
  A call \<open>onSubmit(form, () => setForm(initialState))\<close>: the payload and the callback,
  the latter as the state change it performs when invoked.
\<close>

datatype submit_call =
  OnSubmit (payload: draft) (resetForm: "BugForm_state \<Rightarrow> BugForm_state")

text \<open>
  \<open>handleSubmit\<close> returns the new state and the calls made to \<open>onSubmit\<close>. The test
  \<open>!form.title.trim()\<close> holds exactly when the trimmed string is empty.
\<close>

definition handleSubmit :: "BugForm_state \<Rightarrow> BugForm_state \<times> submit_call list" where
  "handleSubmit st =
     (if trim (title (form st)) = [] \<or> trim (description (form st)) = [] then
        (st\<lparr>formError := js ''Title and description are required.''\<rparr>, [])
      else (st, [OnSubmit (form st) (\<lambda>s. s\<lparr>form := initialState\<rparr>)]))"

text \<open>
  The submit button: \<open>disabled={loading}\<close> and the label
  \<open>loading ? 'Submitting...' : 'Submit Bug'\<close>.
\<close>

record button =
  disabled :: bool
  label :: jsstring

definition submit_button :: "bool \<Rightarrow> button" where
  "submit_button loading =
     \<lparr>disabled = loading, label = (if loading then js ''Submitting...'' else js ''Submit Bug'')\<rparr>"

text \<open>
  A click on the submit button, as the document object model handles it. A disabled
  button is not activated: no \<open>submit\<close> event is dispatched. On an enabled button the
  form is validated first (it has no \<open>noValidate\<close>): the title input and the
  description textarea carry \<open>required\<close>, so when the value of either is the empty
  string the submission is stopped and no \<open>submit\<close> event is dispatched; a value of
  white space only satisfies \<open>required\<close>. Only then does the form's \<open>onSubmit\<close> handler run.
  (\<open>maxLength\<close> limits what can be typed into a control and is not modelled.)
\<close>

definition valueMissing :: "draft \<Rightarrow> bool" where
  "valueMissing d = (title d = [] \<or> description d = [])"

definition click_submit :: "bool \<Rightarrow> BugForm_state \<Rightarrow> BugForm_state \<times> submit_call list" where
  "click_submit loading st =
     (if disabled (submit_button loading) then (st, [])
      else if valueMissing (form st) then (st, [])
      else handleSubmit st)"

section \<open>App.jsx\<close>

text \<open>
  A record as the client holds it: the draft's fields, \<open>_id\<close> and the timestamps
  (their names carry the prefix \<open>bug_\<close>; the plain names are those of the store's
  documents below).
\<close>

record bug = draft +
  bug_id :: jsstring
  bug_createdAt :: int
  bug_updatedAt :: int

text \<open>
  The state variables \<open>bugs\<close>, \<open>loading\<close>, \<open>error\<close>, \<open>formLoading\<close> and
  \<open>formError\<close>. The two error fields carry the prefix \<open>app_\<close> here, their names
  being taken by the fields of the boundary and of the form.
\<close>

record app_state =
  bugs :: "bug list"
  loading :: bool
  app_error :: js_value
  formLoading :: bool
  app_formError :: js_value

















section \<open>models/Bug.js\<close>

text \<open>
  The values a JSON request body can hold. A number is given by the text that
  \<open>String(n)\<close> yields for it, which is all that the cast to a string uses.
\<close>

datatype json =
    JNull
  | JBool bool
  | JNum jsstring
  | JStr jsstring
  | JArr "json list"
  | JObj "(string \<times> json) list"


text \<open>
  The value of a string path after an assignment: not set, \<open>null\<close>, a string, or a
  value that has no cast to a string. The mapper's cast keeps \<open>null\<close>, takes a string
  as it is, turns a number or a boolean into its text, takes the \<open>_id\<close> of an object
  whose \<open>_id\<close> is a non-empty string, and fails on arrays and on other objects.
\<close>

datatype path_value = Unset | IsNull | Text jsstring | Uncastable

fun castString :: "json \<Rightarrow> path_value" where
  "castString JNull = IsNull"
| "castString (JBool b) = Text (if b then js ''true'' else js ''false'')"
| "castString (JNum r) = Text r"
| "castString (JStr s) = Text s"
| "castString (JArr xs) = Uncastable"
| "castString (JObj ps) =
     (case map_of ps ''_id'' of
        Some (JStr i) \<Rightarrow> if i = [] then Uncastable else Text i
      | _ \<Rightarrow> Uncastable)"

text \<open>
  Assignment to a path: an absent value leaves it unset; otherwise the value is cast,
  and the setter of \<open>trim: true\<close> trims the string.
\<close>

definition assign :: "bool \<Rightarrow> json option \<Rightarrow> path_value" where
  "assign trimmed v =
     (case v of
        None \<Rightarrow> Unset
      | Some j \<Rightarrow>
          (case castString j of
             Text s \<Rightarrow> Text (if trimmed then trim s else s)
           | r \<Rightarrow> r))"

text \<open>
  The schema options, with the meaning the mapper gives them: \<open>required\<close> rejects
  a string path that is unset, \<open>null\<close> or the empty string, and runs first on its
  path; \<open>maxlength\<close> bounds \<open>.length\<close>; \<open>enum\<close> admits the listed values. The
  validators other than \<open>required\<close> pass a path that is unset or \<open>null\<close>: only
  \<open>required\<close> keeps a path from being \<open>null\<close>, and \<open>status\<close> is not required. A
  value that could not be cast is an error of its path.
\<close>

datatype validator = Cast | Required | MaxLength | Enum

















text \<open>
  A document of the collection: the three paths of the schema, \<open>_id\<close>, and the two
  timestamps of \<open>timestamps: true\<close>. The status is a string or \<open>null\<close>.
\<close>

record document =
  doc_title :: jsstring
  doc_description :: jsstring
  doc_status :: "jsstring option"
  doc_id :: jsstring
  createdAt :: int
  updatedAt :: int

section \<open>controllers/bugController.js\<close>

text \<open>
  What a handler does with the response: \<open>res.status(n).json(v)\<close> with a document or
  a list of documents, \<open>res.status(n).json({ message })\<close>, or \<open>next(err)\<close>. A
  validation error holds the failed validators by path.
\<close>

datatype server_error =
    ValidationError "(string \<times> validator) set"
  | CastError string
  | StoreError js_value

datatype 'a response =
    Json nat 'a
  | Message nat jsstring
  | Next server_error

text \<open>
  \<open>Bug.find().sort({ createdAt: -1 })\<close> on a collection: all documents, by descending
  \<open>createdAt\<close>. The query may also fail, which \<open>getBugs\<close> hands to \<open>next\<close>.
\<close>

definition find_sorted :: "document list \<Rightarrow> document list" where
  "find_sorted coll = sort_key (\<lambda>b. - createdAt b) coll"

definition getBugs :: "js_value + document list \<Rightarrow> document list response" where
  "getBugs store =
     (case store of
        Inr coll \<Rightarrow> Json 200 (find_sorted coll)
      | Inl err \<Rightarrow> Next (StoreError err))"






text \<open>The properties the schema promises of a stored document.\<close>

definition whitespace_only :: "jsstring \<Rightarrow> bool" where
  "whitespace_only s = list_all is_ws s"




section \<open>Example inputs\<close>


section \<open>Properties\<close>

subsection \<open>BugList\<close>

text \<open>
  C1. The claim: with \<open>loading = true\<close> and a non-empty \<open>error\<close> the error view is
  shown, not the loading view. The component tests \<open>loading\<close> first, so at
  \<open>loading = true\<close>, \<open>error = 'Failed to fetch bugs'\<close> (the input of the test
  "should not show loading state when error exists") it returns the loading view.
\<close>

theorem BugList_loading_error_shows_loading:
  "BugList [] True (Str (js ''Failed to fetch bugs'')) = LoadingView"
  by (simp add: BugList_def)

subsection \<open>Strings\<close>

lemma js_Nil [simp]: "js [] = []"
  by (simp add: js_def)

lemma js_eq_Nil [simp]: "js s = [] \<longleftrightarrow> s = []"
  by (simp add: js_def)

lemma dropWhile_Nil_all: "dropWhile P xs = [] \<longleftrightarrow> list_all P xs"
  by (simp add: list_all_iff)

lemma trim_eq_Nil_iff: "trim s = [] \<longleftrightarrow> whitespace_only s"
proof
  assume "trim s = []"
  then have all: "list_all is_ws (dropWhile is_ws s)"
    by (simp add: trim_def list_all_iff)
  have "dropWhile is_ws s = []"
  proof (rule ccontr)
    assume ne: "dropWhile is_ws s \<noteq> []"
    then have "\<not> is_ws (hd (dropWhile is_ws s))" by (rule hd_dropWhile)
    moreover from ne have "hd (dropWhile is_ws s) \<in> set (dropWhile is_ws s)" by simp
    ultimately show False using all by (simp add: list_all_iff)
  qed
  then show "whitespace_only s"
    unfolding whitespace_only_def by (simp only: dropWhile_Nil_all)
next
  assume "whitespace_only s"
  then have "dropWhile is_ws s = []"
    unfolding whitespace_only_def by (simp only: dropWhile_Nil_all)
  then show "trim s = []" by (simp only: trim_def dropWhile.simps rev.simps)
qed


subsection \<open>ErrorBoundary\<close>

text \<open>
  Whatever value a descendant throws, a boundary in its normal state stores the value,
  enters the failed state and shows the fallback: the heading, the recovery control,
  and as description the value's \<open>message\<close> when that is truthy, the generic text
  otherwise. Nothing is thrown on, also for \<open>null\<close> and \<open>undefined\<close>.
\<close>

lemma ErrorBoundary_catches_every_value:
  assumes "\<not> hasError (state m)"
  shows "hasError (state (step m (Throws e errorInfo))) \<and>
         error (state (step m (Throws e errorInfo))) = e \<and>
         shown (step m (Throws e errorInfo))
           = Fallback (js ''Something went wrong.'')
               (or_else (opt_get e ''message'') (Str (js ''An unexpected error occurred.'')))
               (js ''Try Again'')"
  using assms
  by (simp add: caught_def componentDidCatch_def getDerivedStateFromError_def shown_def
      render_def)

lemma mount_throwing_child:
  "state (mount (Raises e errorInfo)) = \<lparr>hasError = True, error = e\<rparr> \<and>
   shown (mount (Raises e errorInfo))
     = Fallback (js ''Something went wrong.'')
         (or_else (opt_get e ''message'') (Str (js ''An unexpected error occurred.'')))
         (js ''Try Again'')"
  by (simp add: mount_def render_pass_def constructor_def caught_def componentDidCatch_def
      getDerivedStateFromError_def shown_def render_def)

lemma fallback_description:
  "or_else (opt_get Null ''message'') d = d"
  "or_else (opt_get Undefined ''message'') d = d"
  "or_else (opt_get (Str s) ''message'') d = d"
  "msg \<noteq> [] \<Longrightarrow> or_else (opt_get (new_Error msg) ''message'') d = Str msg"
  "msg \<noteq> [] \<Longrightarrow> or_else (opt_get (Obj [(''message'', Str msg)]) ''message'') d = Str msg"
  by (simp_all add: or_else_def new_Error_def)

text \<open>
  C2. The claim: for every raised value the boundary enters the failed state and shows
  the fallback, whose description is taken from the raised value when that carries
  readable text, and is the generic message otherwise. The description is read from
  the \<open>message\<close> property only, so for a thrown string (the input of the tests
  "should handle different types of errors" and "should handle errors without message
  property", which expect \<open>String error\<close> on the screen) the fallback shows the
  generic message.
\<close>

theorem ErrorBoundary_string_error_description:
  "shown (step \<lparr>state = constructor, props_children = c, reported = []\<rparr>
            (Throws (Str (js ''String error'')) errorInfo))
   = Fallback (js ''Something went wrong.'') (Str (js ''An unexpected error occurred.''))
       (js ''Try Again'')"
  by (simp add: shown_def render_def constructor_def caught_def componentDidCatch_def
      getDerivedStateFromError_def or_else_def)

text \<open>
  A failed boundary stays failed, with the same stored value and the same fallback, over
  any sequence of events without a click on the recovery control, whatever children the
  re-renders bring; an event that leaves the failed state is the click.
\<close>

lemma step_keeps_failed:
  "hasError (state m) \<Longrightarrow> ev \<noteq> ClickTryAgain \<Longrightarrow> state (step m ev) = state m"
  by (cases ev) (simp_all add: render_pass_def)

lemma run_keeps_failed:
  "hasError (state m) \<Longrightarrow> ClickTryAgain \<notin> set evs \<Longrightarrow> state (run m evs) = state m"
proof (induction evs arbitrary: m)
  case Nil
  then show ?case by (simp add: run_def)
next
  case (Cons ev evs)
  from Cons.prems have "ev \<noteq> ClickTryAgain" by auto
  with Cons.prems have s: "state (step m ev) = state m"
    by (simp add: step_keeps_failed)
  with Cons.prems have "state (run (step m ev) evs) = state (step m ev)"
    by (intro Cons.IH) simp_all
  with s show ?case by (simp add: run_def)
qed

lemma ErrorBoundary_stays_failed:
  assumes "hasError (state m)" and "ClickTryAgain \<notin> set evs"
  shows "state (run m evs) = state m \<and> shown (run m evs) = shown m \<and>
         (\<exists>d. shown m = Fallback (js ''Something went wrong.'') d (js ''Try Again''))"
  using assms run_keeps_failed [OF assms] by (simp add: shown_def render_def)

lemma ErrorBoundary_only_click_recovers:
  assumes "hasError (state m)" and "\<not> hasError (state (step m ev))"
  shows "ev = ClickTryAgain"
  using assms step_keeps_failed [of m ev] by (cases "ev = ClickTryAgain") simp_all

text \<open>
  The click clears the stored value and renders the current children again. When they
  render, the boundary is back in its normal state and shows them. When one of them
  throws again, the boundary is failed again, with the new value.
\<close>

lemma ErrorBoundary_click:
  assumes "hasError (state m)"
  shows "props_children m = Renders c \<Longrightarrow>
           state (step m ClickTryAgain) = \<lparr>hasError = False, error = Null\<rparr> \<and>
           shown (step m ClickTryAgain) = Children (Renders c)"
    and "props_children m = Raises e errorInfo \<Longrightarrow>
           state (step m ClickTryAgain) = \<lparr>hasError = True, error = e\<rparr>"
  using assms
  by (simp_all add: render_pass_def handleReset_def shown_def render_def caught_def
      componentDidCatch_def getDerivedStateFromError_def)

text \<open>
  C3. The claim: the recovery action returns the boundary to its normal state, and it
  then shows its current children. The tests "should reset error state when Try Again
  button is clicked" and "should allow normal rendering after reset" mount the boundary
  over a child that throws, click the button, re-render with children that do not
  throw, and expect these on the screen. The click renders the child that still
  throws, so the boundary is failed again when the new children arrive, and it keeps
  showing the fallback.
\<close>

theorem ErrorBoundary_reset_then_rerender_still_failed:
  "shown (run (mount (Raises (new_Error (js ''Test error message'')) errorInfo))
            [ClickTryAgain, Rerender (Renders (js ''Normal content''))])
   = Fallback (js ''Something went wrong.'') (Str (js ''Test error message''))
       (js ''Try Again'')"
  by (simp add: run_def mount_def render_pass_def constructor_def caught_def
      componentDidCatch_def getDerivedStateFromError_def handleReset_def shown_def
      render_def new_Error_def or_else_def)

subsection \<open>ErrorBoundary: reporting\<close>

text \<open>
  C4. The claim: when the boundary enters the failed state, the failure and its context
  are reported to a sink. \<open>componentDidCatch\<close> has no statement in its body: after
  a child has thrown \<open>new Error('Test error message')\<close> the boundary has failed and
  nothing has been reported.
\<close>

theorem ErrorBoundary_transition_reports_nothing:
  "hasError (state (step \<lparr>state = constructor, props_children = Renders (js ''Throwing child''), reported = []\<rparr>
       (Throws (new_Error (js ''Test error message'')) (Obj [(''componentStack'', Str (js ''at ThrowError''))])))) \<and>
   reported (step \<lparr>state = constructor, props_children = Renders (js ''Throwing child''), reported = []\<rparr>
       (Throws (new_Error (js ''Test error message'')) (Obj [(''componentStack'', Str (js ''at ThrowError''))]))) = []"
  by (simp add: constructor_def caught_def componentDidCatch_def getDerivedStateFromError_def)

text \<open>
  C4, as the code has it: \<open>componentDidCatch\<close> returns normally and changes neither
  the state nor the sink; on a throw the state is the one that
  \<open>getDerivedStateFromError\<close> gives, and the view is the one \<open>render\<close> gives for it.
\<close>

theorem componentDidCatch_is_inert:
  "componentDidCatch e errorInfo (s, k) = (s, k) \<and>
   (\<not> hasError (state m) \<longrightarrow>
      reported (step m (Throws e errorInfo)) = reported m \<and>
      state (step m (Throws e errorInfo)) = getDerivedStateFromError e \<and>
      shown (step m (Throws e errorInfo)) = render (getDerivedStateFromError e) (props_children m))"
  by (simp add: caught_def componentDidCatch_def shown_def)

theorem componentDidCatch_is_inert_witness:
  "\<not> hasError (state \<lparr>state = constructor, props_children = Renders (js ''Throwing child''), reported = [[Str (js ''earlier'')]]\<rparr>) \<and>
   reported (step \<lparr>state = constructor, props_children = Renders (js ''Throwing child''), reported = [[Str (js ''earlier'')]]\<rparr>
      (Throws Null Undefined)) = [[Str (js ''earlier'')]] \<and>
   shown (step \<lparr>state = constructor, props_children = Renders (js ''Throwing child''), reported = [[Str (js ''earlier'')]]\<rparr>
      (Throws Null Undefined))
     = Fallback (js ''Something went wrong.'') (Str (js ''An unexpected error occurred.'')) (js ''Try Again'')"
proof -
  let ?m = "\<lparr>state = constructor, props_children = Renders (js ''Throwing child''), reported = [[Str (js ''earlier'')]]\<rparr>"
  have n: "\<not> hasError (state ?m)" by (simp add: constructor_def)
  have r: "render (getDerivedStateFromError Null) (props_children ?m)
     = Fallback (js ''Something went wrong.'') (Str (js ''An unexpected error occurred.'')) (js ''Try Again'')"
    by (simp add: render_def getDerivedStateFromError_def or_else_def)
  from componentDidCatch_is_inert [of Null Undefined constructor "[]" ?m] n
  have "reported (step ?m (Throws Null Undefined)) = reported ?m"
    and "shown (step ?m (Throws Null Undefined)) = render (getDerivedStateFromError Null) (props_children ?m)"
    by blast+
  with n r show ?thesis by simp
qed

subsection \<open>BugForm\<close>

text \<open>
  The handler by itself: when the trimmed title or the trimmed description is empty,
  \<open>handleSubmit\<close> sets the validation error, makes no call to \<open>onSubmit\<close>, and
  leaves the draft as it is (untrimmed).
\<close>

lemma handleSubmit_invalid:
  assumes "trim (title (form st)) = [] \<or> trim (description (form st)) = []"
  shows "handleSubmit st = (st\<lparr>formError := js ''Title and description are required.''\<rparr>, [])"
  using assms by (auto simp add: handleSubmit_def)

text \<open>
  A click with a draft whose fields are both non-empty reaches the handler; so a draft
  of white space only gets the validation error. A click with an empty field does not
  reach it: nothing is called and nothing is changed.
\<close>

lemma click_submit_reaches_handler:
  "\<not> busy \<Longrightarrow> title (form st) \<noteq> [] \<Longrightarrow> description (form st) \<noteq> [] \<Longrightarrow>
     click_submit busy st = handleSubmit st"
  by (simp add: click_submit_def submit_button_def valueMissing_def)

lemma click_submit_whitespace_only:
  assumes "\<not> busy" "title (form st) \<noteq> []" "description (form st) \<noteq> []"
    and "whitespace_only (title (form st)) \<or> whitespace_only (description (form st))"
  shows "click_submit busy st = (st\<lparr>formError := js ''Title and description are required.''\<rparr>, [])"
  using assms
  by (simp add: click_submit_reaches_handler handleSubmit_invalid trim_eq_Nil_iff)

lemma click_submit_empty_field:
  "title (form st) = [] \<or> description (form st) = [] \<Longrightarrow> click_submit busy st = (st, [])"
  by (auto simp add: click_submit_def valueMissing_def)

text \<open>
  C5. The claim: submitting a draft whose trimmed title or trimmed description is empty
  sets the validation error, makes no call, and leaves the draft unchanged. The tests
  "should show error when submitting empty form", "should show error when title is
  empty" and "should show error when description is empty" click the button with an
  empty field and expect the text \<open>Title and description are required.\<close> The
  \<open>required\<close> attribute of the field stops that submission before \<open>handleSubmit\<close>
  runs: with an empty title and the description \<open>Test description\<close> the click makes
  no call and leaves the draft unchanged, but \<open>formError\<close> stays empty.
\<close>

theorem BugForm_empty_title_click_sets_no_error:
  "click_submit False
     \<lparr>form = \<lparr>title = [], description = js ''Test description'', status = js ''open''\<rparr>,
      formError = []\<rparr>
   = (\<lparr>form = \<lparr>title = [], description = js ''Test description'', status = js ''open''\<rparr>,
       formError = []\<rparr>, [])"
  by (simp add: click_submit_def submit_button_def valueMissing_def)

text \<open>
  C6. When both trimmed fields are non-empty, \<open>handleSubmit\<close> calls \<open>onSubmit\<close>
  exactly once, with the current draft and a callback, and leaves its own state
  unchanged. The callback sets the draft to \<open>initialState\<close>, so title and
  description are empty afterwards.
\<close>

theorem BugForm_valid_submit:
  assumes "trim (title (form st)) \<noteq> []" and "trim (description (form st)) \<noteq> []"
  shows "\<exists>reset. handleSubmit st = (st, [OnSubmit (form st) reset]) \<and>
           (\<forall>s. reset s = s\<lparr>form := initialState\<rparr> \<and>
                title (form (reset s)) = [] \<and> description (form (reset s)) = [])"
  using assms by (simp add: handleSubmit_def initialState_def)

theorem BugForm_valid_submit_witness:
  "map payload (snd (handleSubmit
      \<lparr>form = \<lparr>title = js ''Test Bug'', description = js ''Test Description'',
               status = js ''in-progress''\<rparr>, formError = []\<rparr>))
   = [\<lparr>title = js ''Test Bug'', description = js ''Test Description'', status = js ''in-progress''\<rparr>]"
proof -
  let ?st = "\<lparr>form = \<lparr>title = js ''Test Bug'', description = js ''Test Description'',
               status = js ''in-progress''\<rparr>, formError = []\<rparr>"
  have t: "trim (title (form ?st)) \<noteq> []" by (simp add: trim_def js_def is_ws_def)
  have d: "trim (description (form ?st)) \<noteq> []" by (simp add: trim_def js_def is_ws_def)
  from BugForm_valid_submit [OF t d] obtain reset
    where "handleSubmit ?st = (?st, [OnSubmit (form ?st) reset])" by blast
  then show ?thesis by simp
qed

text \<open>
  C7. With \<open>loading\<close> true the submit button is disabled and labelled
  \<open>Submitting...\<close>, and a click on it makes no call to \<open>onSubmit\<close> and changes
  nothing.
\<close>

theorem BugForm_loading_blocks_click:
  assumes "busy"
  shows "disabled (submit_button busy) \<and>
         label (submit_button busy) = js ''Submitting...'' \<and>
         click_submit busy st = (st, [])"
  using assms by (simp add: submit_button_def click_submit_def)

theorem BugForm_loading_blocks_click_witness:
  "click_submit True
     \<lparr>form = \<lparr>title = js ''Test Bug'', description = js ''Test Description'', status = js ''open''\<rparr>,
      formError = []\<rparr>
   = (\<lparr>form = \<lparr>title = js ''Test Bug'', description = js ''Test Description'', status = js ''open''\<rparr>,
       formError = []\<rparr>, []) \<and>
   label (submit_button True) = js ''Submitting...''"
  using BugForm_loading_blocks_click [of True] by simp

subsection \<open>App\<close>






subsection \<open>Store\<close>

lemma sorted_desc: "sorted_wrt (\<lambda>a b. createdAt b \<le> createdAt a) (find_sorted coll)"
proof -
  have "sorted (map (\<lambda>b. - createdAt b) (find_sorted coll))"
    unfolding find_sorted_def by (rule sorted_sort_key)
  then show ?thesis by (simp add: sorted_wrt_map)
qed

text \<open>
  C10. For every collection, \<open>getBugs\<close> answers with status 200 and a list that has
  exactly the documents of the collection, ordered by descending \<open>createdAt\<close>.
\<close>

theorem getBugs_newest_first:
  "\<exists>bs. getBugs (Inr coll) = Json 200 bs \<and> mset bs = mset coll \<and>
        sorted_wrt (\<lambda>a b. createdAt b \<le> createdAt a) bs"
  by (simp add: getBugs_def sorted_desc) (simp add: find_sorted_def)





lemma assign_JStr [simp]:
  "assign True (Some (JStr s)) = Text (trim s)"
  "assign False (Some (JStr s)) = Text s"
  "assign tr None = Unset"
  "assign tr (Some JNull) = IsNull"
  by (simp_all add: assign_def)































end
